theory Spec2Isabelle
  imports Complex_Main
begin

section \<open>The hydrological simulator of \<^verbatim>\<open>data_processing_pipeline.py\<close>\<close>

text \<open>
  The theory embeds the four static methods of the class \<^verbatim>\<open>HydrologicalSimulator\<close>
  (lines 236 to 353 of \<^verbatim>\<open>src/data_processing_pipeline.py\<close>).

  Modelling decisions, valid for every definition below:
  \<^item> A Python \<^verbatim>\<open>float\<close> is a \<^typ>\<open>real\<close>: arithmetic is exact, there is no rounding,
    no infinity, no NaN and no \<^verbatim>\<open>OverflowError\<close> of \<^verbatim>\<open>**\<close> on huge operands. Every
    theorem is a statement about the formulas the code evaluates, in exact arithmetic.
  \<^item> A Python \<^verbatim>\<open>int\<close> is an \<^typ>\<open>int\<close>, a \<^verbatim>\<open>str\<close> a \<^typ>\<open>string\<close>.
  \<^item> An exception is a value \<open>Inl e\<close> of the result type. The only operation of these
    methods that can raise in exact arithmetic is true division by a variable divisor.
  \<^item> The process-wide generator behind \<^verbatim>\<open>np.random.uniform\<close> is not code of the
    repository. It is a parameter \<open>uniform low high g\<close>, which returns the draw
    together with the generator state after the draw; the state \<open>g\<close> is passed
    through the simulation explicitly.
\<close>

subsection \<open>Errors and fallible division\<close>

datatype error = ZeroDivisionError

text \<open>Python's \<^verbatim>\<open>a / b\<close> on numbers: raises \<^verbatim>\<open>ZeroDivisionError\<close> when \<open>b\<close> is zero.\<close>

definition py_truediv :: "real \<Rightarrow> real \<Rightarrow> error + real" where
  "py_truediv a b = (if b = 0 then Inl ZeroDivisionError else Inr (a / b))"


subsection \<open>\<^verbatim>\<open>calculate_runoff\<close> (lines 241 to 273)\<close>





subsection \<open>\<^verbatim>\<open>calculate_water_level\<close> (lines 275 to 298)\<close>

text \<open>
  \<^verbatim>\<open>
  volume_m3 = runoff * area_km2 * 1000
  avg_depth_m = runoff / 1000
  terrain_factor = 1.5
  adjusted_depth = avg_depth_m * terrain_factor
  return adjusted_depth
  \<close>
  The volume is computed and never read. The divisor is the literal 1000, so nothing
  here can raise.
\<close>

definition calculate_water_level :: "real \<Rightarrow> real \<Rightarrow> real" where
  "calculate_water_level runoff area_km2 =
     (let volume_m3 = runoff * area_km2 * 1000;
          avg_depth_m = runoff / 1000;
          terrain_factor = 1.5;
          adjusted_depth = avg_depth_m * terrain_factor
      in adjusted_depth)"

subsection \<open>\<^verbatim>\<open>classify_flood_risk\<close> (lines 300 to 319)\<close>

text \<open>
  An \<^verbatim>\<open>if\<close>/\<^verbatim>\<open>elif\<close> chain of comparisons with literals; no operation of it raises, so
  the model returns the pair itself.
\<close>

definition classify_flood_risk :: "real \<Rightarrow> real \<Rightarrow> string \<times> int" where
  "classify_flood_risk water_level rainfall =
     (if water_level > 4.0 \<or> rainfall > 500 then (''EXTREME'', 4)
      else if water_level > 2.5 \<or> rainfall > 350 then (''HIGH'', 3)
      else if water_level > 1.5 \<or> rainfall > 200 then (''MEDIUM'', 2)
      else (''LOW'', 1))"

text \<open>
  The tier table of section 4.3 of the specification, most severe tier first: depth
  threshold, rainfall threshold, label, code. The classifier of the specification
  takes the first row one of whose thresholds is exceeded, and Low when there is none.
\<close>

definition risk_tiers :: "(real \<times> real \<times> string \<times> int) list" where
  "risk_tiers =
     [(4.0, 500, ''EXTREME'', 4), (2.5, 350, ''HIGH'', 3), (1.5, 200, ''MEDIUM'', 2)]"

definition spec_classify_risk :: "real \<Rightarrow> real \<Rightarrow> string \<times> int" where
  "spec_classify_risk depth_m rainfall_mm =
     (case find (\<lambda>(d, r, label, code). depth_m > d \<or> rainfall_mm > r) risk_tiers of
        Some (d, r, label, code) \<Rightarrow> (label, code)
      | None \<Rightarrow> (''LOW'', 1))"

subsection \<open>\<^verbatim>\<open>simulate_flood_progression\<close> (lines 321 to 353)\<close>

text \<open>
  Lines 336 to 347, the level of one hour before the noise:
  \<^verbatim>\<open>
  progress = hour / duration_hours
  peak_time = 0.7
  if progress < peak_time:
      level = (rainfall / 100) * (progress / peak_time) ** 1.5
  else:
      recession_factor = (progress - peak_time) / (1 - peak_time)
      level = (rainfall / 100) * (1 - recession_factor) ** 2
  \<close>
  The division by \<^verbatim>\<open>duration_hours\<close> raises when the duration is zero. The exponent
  1.5 is a float, so \<^verbatim>\<open>**\<close> is the real power \<open>powr\<close>; its base is never negative
  where the loop evaluates it (the hours of a non-empty range are at least 0 and the
  duration is then positive), and \<open>0 powr 1.5 = 0\<close> as in Python.
\<close>

definition hour_level :: "real \<Rightarrow> int \<Rightarrow> int \<Rightarrow> error + real" where
  "hour_level rainfall duration_hours hour =
     (case py_truediv (real_of_int hour) (real_of_int duration_hours) of
        Inl e \<Rightarrow> Inl e
      | Inr progress \<Rightarrow>
          (let peak_time = 0.7 in
           if progress < peak_time
           then Inr ((rainfall / 100) * (progress / peak_time) powr 1.5)
           else (let recession_factor = (progress - peak_time) / (1 - peak_time)
                 in Inr ((rainfall / 100) * (1 - recession_factor) ^ 2))))"

text \<open>
  The body of the \<^verbatim>\<open>for\<close> loop over the remaining hours, with the list built so far
  and the state of the generator:
  \<^verbatim>\<open>
  level += level * np.random.uniform(-0.1, 0.1)
  water_levels.append(max(0, level))
  \<close>
\<close>

fun progression_loop ::
  "(real \<Rightarrow> real \<Rightarrow> 'g \<Rightarrow> real \<times> 'g) \<Rightarrow> real \<Rightarrow> int \<Rightarrow> int list \<Rightarrow> real list \<Rightarrow> 'g
     \<Rightarrow> error + (real list \<times> 'g)" where
  "progression_loop uniform rainfall duration_hours [] water_levels g =
     Inr (water_levels, g)"
| "progression_loop uniform rainfall duration_hours (hour # hours) water_levels g =
     (case hour_level rainfall duration_hours hour of
        Inl e \<Rightarrow> Inl e
      | Inr level \<Rightarrow>
          (case uniform (- 0.1) 0.1 g of
             (noise, g') \<Rightarrow>
               (let level' = level + level * noise
                in progression_loop uniform rainfall duration_hours hours
                     (water_levels @ [max 0 level']) g')))"

text \<open>\<^verbatim>\<open>range(duration_hours + 1)\<close> is the list \<open>[0..duration_hours]\<close>, empty for a negative duration.\<close>

definition simulate_flood_progression ::
  "(real \<Rightarrow> real \<Rightarrow> 'g \<Rightarrow> real \<times> 'g) \<Rightarrow> real \<Rightarrow> int \<Rightarrow> 'g \<Rightarrow> error + (real list \<times> 'g)" where
  "simulate_flood_progression uniform rainfall duration_hours g =
     progression_loop uniform rainfall duration_hours [0..duration_hours] [] g"


text \<open>
  A concrete generator to run the simulation on: its state is a counter, and it walks
  through ten equally spaced points of \<open>[low, high)\<close>.
\<close>

definition cyclic_uniform :: "real \<Rightarrow> real \<Rightarrow> nat \<Rightarrow> real \<times> nat" where
  "cyclic_uniform low high g = (low + (high - low) * (real (g mod 10) / 10), Suc g)"


section \<open>Properties\<close>

subsection \<open>Runoff: the curve number and the retention\<close>










subsection \<open>Runoff: the shape of the SCS curve\<close>







subsection \<open>Progression: one hour, the loop, the generator\<close>

lemma hour_level_zero_duration: "hour_level rainfall 0 hour = Inl ZeroDivisionError"
  by (simp add: hour_level_def py_truediv_def)

lemma hour_level_nonzero_duration:
  "duration_hours \<noteq> 0 \<Longrightarrow>
     hour_level rainfall duration_hours hour =
       Inr (if real_of_int hour / real_of_int duration_hours < 0.7
            then (rainfall / 100) * (real_of_int hour / real_of_int duration_hours / 0.7) powr 1.5
            else (rainfall / 100) *
                   (1 - (real_of_int hour / real_of_int duration_hours - 0.7) / (1 - 0.7)) ^ 2)"
  by (simp add: hour_level_def py_truediv_def Let_def)

lemma hour_level_returns:
  "duration_hours \<noteq> 0 \<Longrightarrow> \<exists>level. hour_level rainfall duration_hours hour = Inr level"
  using hour_level_nonzero_duration by blast

lemma progression_loop_returns:
  assumes "duration_hours \<noteq> 0"
  shows "\<exists>new g'. progression_loop uniform rainfall duration_hours hours water_levels g
            = Inr (water_levels @ new, g')
          \<and> length new = length hours \<and> (\<forall>x \<in> set new. 0 \<le> x)"
proof (induction hours arbitrary: water_levels g)
  case Nil
  show ?case by simp
next
  case (Cons hour hours)
  obtain level where l: "hour_level rainfall duration_hours hour = Inr level"
    using hour_level_returns [OF assms] by blast
  obtain noise g1 where u: "uniform (- 0.1) 0.1 g = (noise, g1)"
    by (cases "uniform (- 0.1) 0.1 g")
  obtain new g' where n:
    "progression_loop uniform rainfall duration_hours hours
       (water_levels @ [max 0 (level + level * noise)]) g1
     = Inr ((water_levels @ [max 0 (level + level * noise)]) @ new, g')"
    "length new = length hours" "\<forall>x \<in> set new. 0 \<le> x"
    using Cons.IH [of "water_levels @ [max 0 (level + level * noise)]" g1] by blast
  have "progression_loop uniform rainfall duration_hours (hour # hours) water_levels g
      = Inr (water_levels @ (max 0 (level + level * noise) # new), g')"
    using l u n(1) by (simp add: Let_def)
  moreover have "length (max 0 (level + level * noise) # new) = length (hour # hours)"
    using n(2) by simp
  moreover have "\<forall>x \<in> set (max 0 (level + level * noise) # new). 0 \<le> x"
    using n(3) by simp
  ultimately show ?case by blast
qed

lemma simulate_returns:
  assumes "1 \<le> duration_hours"
  shows "\<exists>levels g'. simulate_flood_progression uniform rainfall duration_hours g = Inr (levels, g')
          \<and> int (length levels) = duration_hours + 1 \<and> (\<forall>x \<in> set levels. 0 \<le> x)"
proof -
  from assms have nz: "duration_hours \<noteq> 0" by simp
  obtain new g' where n:
    "progression_loop uniform rainfall duration_hours [0..duration_hours] [] g = Inr ([] @ new, g')"
    "length new = length [0..duration_hours]" "\<forall>x \<in> set new. 0 \<le> x"
    using progression_loop_returns [OF nz, of uniform rainfall "[0..duration_hours]" "[]" g] by blast
  from n(2) assms have "int (length new) = duration_hours + 1" by simp
  with n(1) n(3) show ?thesis by (simp add: simulate_flood_progression_def)
qed

lemma simulate_zero_duration:
  "simulate_flood_progression uniform rainfall 0 g = Inl ZeroDivisionError"
  by (simp add: simulate_flood_progression_def hour_level_zero_duration upto.simps)

lemma simulate_negative_duration:
  "duration_hours < 0 \<Longrightarrow> simulate_flood_progression uniform rainfall duration_hours g = Inr ([], g)"
  by (simp add: simulate_flood_progression_def)


lemma cyclic_uniform_range:
  "- 0.1 \<le> fst (cyclic_uniform (- 0.1) 0.1 g) \<and> fst (cyclic_uniform (- 0.1) 0.1 g) \<le> 0.1"
proof -
  have "g mod 10 < 10" by simp
  then have "real (g mod 10) \<le> 10" by linarith
  then show ?thesis by (simp add: cyclic_uniform_def)
qed

lemma clamp_nonpos:
  fixes level noise :: real
  assumes "level \<le> 0" "- 1 \<le> noise"
  shows "max 0 (level + level * noise) = 0"
proof -
  have "level * (1 + noise) \<le> 0"
    using assms by (intro mult_nonpos_nonneg) simp_all
  then have "level + level * noise \<le> 0" by (simp add: algebra_simps)
  then show ?thesis by simp
qed


section \<open>The claims\<close>



text \<open>
  Claim C2. For every rainfall of at least 0, every duration of at least 1 hour and
  every generator whose draws lie in \<open>[-0.1, 0.1]\<close>, \<^verbatim>\<open>simulate_flood_progression\<close>
  returns a list of exactly \<open>duration_hours + 1\<close> levels, each of them at least 0.
\<close>

theorem simulate_flood_progression_length_nonneg:
  assumes "0 \<le> rainfall" and "1 \<le> duration_hours"
    and "\<forall>g. - 0.1 \<le> fst (uniform (- 0.1) 0.1 g) \<and> fst (uniform (- 0.1) 0.1 g) \<le> 0.1"
  shows "\<exists>levels g'. simulate_flood_progression uniform rainfall duration_hours g = Inr (levels, g')
          \<and> int (length levels) = duration_hours + 1 \<and> (\<forall>x \<in> set levels. 0 \<le> x)"
  using assms(2) by (rule simulate_returns)

theorem simulate_flood_progression_length_nonneg_witness:
  "(0::real) \<le> 450 \<and> (1::int) \<le> 3
   \<and> (\<exists>levels g'. simulate_flood_progression cyclic_uniform 450 3 0 = Inr (levels, g')
          \<and> int (length levels) = 3 + 1 \<and> list_all (\<lambda>x. 0 \<le> x) levels)"
proof -
  have h1: "(0::real) \<le> 450" by simp
  have h2: "(1::int) \<le> 3" by simp
  have h3: "\<forall>g. - 0.1 \<le> fst (cyclic_uniform (- 0.1) 0.1 g) \<and> fst (cyclic_uniform (- 0.1) 0.1 g) \<le> 0.1"
    using cyclic_uniform_range by blast
  show ?thesis using simulate_flood_progression_length_nonneg [where uniform = cyclic_uniform and g = 0, OF h1 h2 h3] by (simp add: list_all_iff)
qed

text \<open>
  Claim C3. \<^verbatim>\<open>classify_flood_risk\<close> evaluates the tiers Extreme, High, Medium, Low
  in this order, the first match winning, a tier matching when the depth or the
  rainfall exceeds its threshold: it is the first-match lookup in the tier table of
  the specification. In particular \<open>(0, 0)\<close> is Low with code 1, and \<open>(5.0, 0)\<close>
  and \<open>(0, 600)\<close> are Extreme with code 4. The labels are the upper-case strings the
  code returns.
\<close>

theorem classify_flood_risk_tiers:
  "classify_flood_risk depth_m rainfall_mm = spec_classify_risk depth_m rainfall_mm
   \<and> classify_flood_risk 0 0 = (''LOW'', 1)
   \<and> classify_flood_risk 5.0 0 = (''EXTREME'', 4)
   \<and> classify_flood_risk 0 600 = (''EXTREME'', 4)"
  by (simp add: classify_flood_risk_def spec_classify_risk_def risk_tiers_def)

text \<open>
  Claim C4. For every runoff of at least 0 and every positive catchment area,
  \<^verbatim>\<open>calculate_water_level\<close> returns exactly \<open>(runoff / 1000) * 1.5\<close>, and two
  positive areas give the same depth for the same runoff.
\<close>

theorem calculate_water_level_ignores_area:
  "0 \<le> runoff_mm \<Longrightarrow> 0 < a1 \<Longrightarrow> 0 < a2 \<Longrightarrow>
     calculate_water_level runoff_mm a1 = (runoff_mm / 1000) * 1.5
     \<and> calculate_water_level runoff_mm a1 = calculate_water_level runoff_mm a2"
  by (simp add: calculate_water_level_def)

theorem calculate_water_level_ignores_area_witness:
  "(0::real) \<le> 341 \<and> (0::real) < 100 \<and> (0::real) < 250
   \<and> calculate_water_level 341 100 = (341 / 1000) * 1.5
   \<and> calculate_water_level 341 100 = calculate_water_level 341 250"
  using calculate_water_level_ignores_area [of 341 100 250] by simp








text \<open>
  Claim C8 says that \<^verbatim>\<open>simulate_flood_progression\<close> fails with an invalid-input
  error when the rainfall is negative or the duration is at most 0. The method checks
  nothing: a duration of -1 gives an empty range and the empty list; a duration of 0
  fails, with the \<^verbatim>\<open>ZeroDivisionError\<close> of \<^verbatim>\<open>hour / duration_hours\<close>; and a rainfall
  of -100 mm over 2 hours returns three levels, each clamped to 0.
\<close>

theorem simulate_flood_progression_unvalidated_inputs:
  "simulate_flood_progression cyclic_uniform 100 (- 1) 0 = Inr ([], 0)
   \<and> simulate_flood_progression cyclic_uniform 100 0 0 = Inl ZeroDivisionError
   \<and> simulate_flood_progression cyclic_uniform (- 100) 2 0 = Inr ([0, 0, 0], 3)"
proof -
  have a: "simulate_flood_progression cyclic_uniform 100 (- 1) 0 = Inr ([], 0)"
    by (simp add: simulate_flood_progression_def)
  have b: "simulate_flood_progression cyclic_uniform 100 0 0 = Inl ZeroDivisionError"
    by (simp add: simulate_flood_progression_def hour_level_def py_truediv_def upto.simps)
  have l0: "hour_level (- 100) 2 0 = Inr 0"
    by (simp add: hour_level_def py_truediv_def)
  have l1: "hour_level (- 100) 2 1 = Inr (- ((5 / 7) powr 1.5))"
    by (simp add: hour_level_def py_truediv_def)
  have l2: "hour_level (- 100) 2 2 = Inr 0"
    by (simp add: hour_level_def py_truediv_def)
  have u1: "cyclic_uniform (- 0.1) 0.1 (Suc 0) = (- 0.08, 2)"
    by (simp add: cyclic_uniform_def)
  have m: "max 0 (- ((5 / 7) powr 1.5) + - ((5 / 7) powr 1.5) * (- 0.08)) = (0::real)"
    by (rule clamp_nonpos) simp_all
  have r: "[0..2::int] = [0, 1, 2]" by (simp add: upto.simps)
  have c: "simulate_flood_progression cyclic_uniform (- 100) 2 0 = Inr ([0, 0, 0], 3)"
    using m by (simp add: simulate_flood_progression_def r l0 l1 l2 u1 cyclic_uniform_def)
  from a b c show ?thesis by simp
qed

text \<open>
  Claim C8, amended. \<^verbatim>\<open>simulate_flood_progression\<close> validates nothing: a duration
  of 0 raises \<^verbatim>\<open>ZeroDivisionError\<close>, a negative duration returns the empty list and
  leaves the generator untouched, and for every duration of at least 1 the method
  returns \<open>duration_hours + 1\<close> non-negative levels for every rainfall, negative ones
  included.
\<close>

theorem simulate_flood_progression_by_duration:
  "(duration_hours = 0 \<longrightarrow>
      simulate_flood_progression uniform rainfall duration_hours g = Inl ZeroDivisionError) \<and>
   (duration_hours < 0 \<longrightarrow>
      simulate_flood_progression uniform rainfall duration_hours g = Inr ([], g)) \<and>
   (1 \<le> duration_hours \<longrightarrow>
      (\<exists>levels g'. simulate_flood_progression uniform rainfall duration_hours g = Inr (levels, g')
          \<and> int (length levels) = duration_hours + 1 \<and> (\<forall>x \<in> set levels. 0 \<le> x)))"
  using simulate_returns [of duration_hours uniform rainfall g]
  by (simp add: simulate_zero_duration simulate_negative_duration)

theorem simulate_flood_progression_by_duration_witness:
  "simulate_flood_progression cyclic_uniform (- 5) 0 7 = Inl ZeroDivisionError
   \<and> simulate_flood_progression cyclic_uniform (- 5) (- 2) 7 = Inr ([], 7)
   \<and> (\<exists>levels g'. simulate_flood_progression cyclic_uniform (- 5) 2 7 = Inr (levels, g')
          \<and> int (length levels) = 2 + 1 \<and> list_all (\<lambda>x. 0 \<le> x) levels)"
  using simulate_flood_progression_by_duration [of 0 cyclic_uniform "- 5" 7] simulate_flood_progression_by_duration [of "- 2" cyclic_uniform "- 5" 7]
    simulate_flood_progression_by_duration [of 2 cyclic_uniform "- 5" 7]
  by (simp add: list_all_iff)



text \<open>
  Claim C10. \<^verbatim>\<open>classify_flood_risk\<close> is total and never raises (the model is a
  total function with no error result, as the method has no raising operation); for
  every water level of at most 1.5 and rainfall of at most 200, negative values
  included, it returns \<^verbatim>\<open>('LOW', 1)\<close>.
\<close>

theorem classify_flood_risk_low_total:
  "water_level \<le> 1.5 \<Longrightarrow> rainfall \<le> 200 \<Longrightarrow> classify_flood_risk water_level rainfall = (''LOW'', 1)"
  by (simp add: classify_flood_risk_def)

theorem classify_flood_risk_low_total_witness:
  "(- 3::real) \<le> 1.5 \<and> (- 10::real) \<le> 200 \<and> classify_flood_risk (- 3) (- 10) = (''LOW'', 1)"
  using classify_flood_risk_low_total [of "- 3" "- 10"] by simp

end
